theory Spec2Isabelle
  imports Main "HOL-Library.AList"
begin

text \<open>
  A model of the development SDK emulation of the game: the Game-State Codec and the
  storage keys (\<^verbatim>\<open>.remix/components/Panels/GameStatePanel.tsx\<close>), the storage wrapper
  (\<^verbatim>\<open>.remix/utils/safeLocalStorage.ts\<close>), and the SDK mock with its client facade and
  its dev host controller (\<^verbatim>\<open>.remix/mocks/RemixSDKMock\<close>). Each handler is taken
  as one step: the game name is resolved, so nothing else runs between its awaits.
\<close>

section \<open>JavaScript values\<close>

text \<open>
  The dev harness handles untyped payloads (\<^verbatim>\<open>any\<close>, \<^verbatim>\<open>Record<string, unknown>\<close>).
  They are modelled as JSON-like values. An object is an association list in property
  order; a missing property reads as \<open>JUndefined\<close>, as in JavaScript. Numbers are
  restricted to integers.
\<close>

datatype json =
    JUndefined
  | JNull
  | JBool bool
  | JNum int
  | JStr string
  | JArr "json list"
  | JObj "(string \<times> json) list"

text \<open>JavaScript truthiness (\<^verbatim>\<open>!raw\<close>, \<^verbatim>\<open>a || b\<close>, \<^verbatim>\<open>c ? x : y\<close>).\<close>

fun truthy :: "json \<Rightarrow> bool" where
  "truthy JUndefined = False"
| "truthy JNull = False"
| "truthy (JBool b) = b"
| "truthy (JNum n) = (n \<noteq> 0)"
| "truthy (JStr s) = (s \<noteq> [])"
| "truthy (JArr xs) = True"
| "truthy (JObj kvs) = True"

text \<open>\<^verbatim>\<open>typeof v === 'object'\<close>: objects, arrays and \<^verbatim>\<open>null\<close>.\<close>

fun typeofObject :: "json \<Rightarrow> bool" where
  "typeofObject JNull = True"
| "typeofObject (JArr xs) = True"
| "typeofObject (JObj kvs) = True"
| "typeofObject v = False"

text \<open>The own properties of a value, for the named (non-index) keys the code reads.\<close>

fun ownProps :: "json \<Rightarrow> (string \<times> json) list" where
  "ownProps (JObj kvs) = kvs"
| "ownProps v = []"

text \<open>\<^verbatim>\<open>key in raw\<close> and \<^verbatim>\<open>raw.key\<close> (on a value that is neither null nor undefined).\<close>

definition hasKey :: "string \<Rightarrow> json \<Rightarrow> bool" where
  "hasKey k v = (k \<in> set (map fst (ownProps v)))"

definition getProp :: "json \<Rightarrow> string \<Rightarrow> json" where
  "getProp v k = (case map_of (ownProps v) k of None \<Rightarrow> JUndefined | Some x \<Rightarrow> x)"

text \<open>\<^verbatim>\<open>const { key: _, ...rest } = raw\<close> and \<^verbatim>\<open>{ ...rest, key: x }\<close>.\<close>

definition restWithout :: "string \<Rightarrow> json \<Rightarrow> (string \<times> json) list" where
  "restWithout k v = filter (\<lambda>kv. fst kv \<noteq> k) (ownProps v)"

definition spreadWith :: "(string \<times> json) list \<Rightarrow> string \<Rightarrow> json \<Rightarrow> json" where
  "spreadWith rest k x = JObj (AList.update k x rest)"

section \<open>Game-State Codec (GameStatePanel.tsx)\<close>

definition normalizeGameState :: "json \<Rightarrow> json" where
  "normalizeGameState raw =
     (if \<not> truthy raw \<or> \<not> typeofObject raw then raw
      else if hasKey ''gameState'' raw then
        (let deprecatedData = getProp raw ''data'';
             rest = restWithout ''data'' raw
         in if getProp (JObj rest) ''gameState'' = JUndefined \<and> deprecatedData \<noteq> JUndefined
            then spreadWith rest ''gameState'' deprecatedData
            else JObj rest)
      else if hasKey ''data'' raw then
        (let data = getProp raw ''data'';
             rest = restWithout ''data'' raw
         in spreadWith rest ''gameState'' data)
      else raw)"

text \<open>A plain object, as opposed to an array, \<^verbatim>\<open>null\<close>, \<^verbatim>\<open>undefined\<close> or a primitive.\<close>

fun isPlainObject :: "json \<Rightarrow> bool" where
  "isPlainObject (JObj kvs) = True"
| "isPlainObject v = False"

text \<open>The spec's wording of the legacy case: "prefer gameState if non-empty".\<close>

fun isEmptyValue :: "json \<Rightarrow> bool" where
  "isEmptyValue JUndefined = True"
| "isEmptyValue JNull = True"
| "isEmptyValue (JStr s) = (s = [])"
| "isEmptyValue (JArr xs) = (xs = [])"
| "isEmptyValue (JObj kvs) = (kvs = [])"
| "isEmptyValue v = False"

section \<open>Storage keys (.remix/mocks/RemixSDKMock, GameStatePanel.tsx)\<close>

definition BROADCAST_STORAGE_KEY :: string where
  "BROADCAST_STORAGE_KEY = ''__remix_dev_host_broadcast__''"

definition PLAYER_ASSIGNMENTS_KEY :: string where
  "PLAYER_ASSIGNMENTS_KEY = ''__remix_dev_player_assignments__''"

text \<open>The character class \<^verbatim>\<open>[a-zA-Z0-9-_]\<close>, by character code.\<close>

definition inKeyClass :: "char \<Rightarrow> bool" where
  "inKeyClass c =
     (let n = (of_char c :: nat) in
        (of_char CHR ''a'' \<le> n \<and> n \<le> of_char CHR ''z'')
      \<or> (of_char CHR ''A'' \<le> n \<and> n \<le> of_char CHR ''Z'')
      \<or> (of_char CHR ''0'' \<le> n \<and> n \<le> of_char CHR ''9'')
      \<or> c = CHR ''-'' \<or> c = CHR ''_'')"

text \<open>\<^verbatim>\<open>gameName.replace(/[^a-zA-Z0-9-_]/g, '_')\<close>\<close>

definition cleanName :: "string \<Rightarrow> string" where
  "cleanName gameName = map (\<lambda>c. if inKeyClass c then c else CHR ''_'') gameName"

text \<open>The parameter defaults to \<^verbatim>\<open>'unknown-game'\<close> when it is not passed.\<close>

definition getGameStateKey :: "string option \<Rightarrow> string" where
  "getGameStateKey gameName =
     ''remix_game_state_'' @ cleanName (case gameName of None \<Rightarrow> ''unknown-game'' | Some n \<Rightarrow> n)"

text \<open>
  The panel's copy of the function returns \<^verbatim>\<open>null\<close> outside a browser
  (\<^verbatim>\<open>typeof window === 'undefined'\<close>).
\<close>

definition panelGetGameStateKey :: "bool \<Rightarrow> string option \<Rightarrow> string option" where
  "panelGetGameStateKey hasWindow gameName =
     (if \<not> hasWindow then None
      else Some (''remix_game_state_'' @
                 cleanName (case gameName of None \<Rightarrow> ''unknown-game'' | Some n \<Rightarrow> n)))"

definition getSavedStatesKey :: "bool \<Rightarrow> string option \<Rightarrow> string option" where
  "getSavedStatesKey hasWindow gameName =
     (if \<not> hasWindow then None
      else Some (''remix_saved_states_'' @
                 cleanName (case gameName of None \<Rightarrow> ''unknown-game'' | Some n \<Rightarrow> n)))"

text \<open>The spec's wording: the sanitized name "strips" the characters outside the class.\<close>

definition strippedName :: "string \<Rightarrow> string" where
  "strippedName gameName = filter inKeyClass gameName"

section \<open>Strings\<close>

text \<open>\<^verbatim>\<open>String(n)\<close> of a non-negative integer: its decimal digits.\<close>

definition digitChar :: "nat \<Rightarrow> char" where
  "digitChar d = char_of (of_char CHR ''0'' + d)"

fun decimal :: "nat \<Rightarrow> string" where
  "decimal n = (if n < 10 then [digitChar n] else decimal (n div 10) @ [digitChar (n mod 10)])"

declare decimal.simps [simp del]

definition stringOfInt :: "int \<Rightarrow> string" where
  "stringOfInt i = (if i < 0 then ''-'' @ decimal (nat (- i)) else decimal (nat i))"

text \<open>\<^verbatim>\<open>Array.prototype.join(',')\<close> on strings.\<close>

fun joinComma :: "string list \<Rightarrow> string" where
  "joinComma [] = []"
| "joinComma [s] = s"
| "joinComma (s # t # ss) = s @ '','' @ joinComma (t # ss)"

text \<open>
  \<^verbatim>\<open>String(v)\<close>. An array prints its elements joined by commas, \<^verbatim>\<open>null\<close> and
  \<^verbatim>\<open>undefined\<close> elements as empty strings; a plain object prints as
  \<^verbatim>\<open>[object Object]\<close>.
\<close>

fun jsString :: "json \<Rightarrow> string" where
  "jsString JUndefined = ''undefined''"
| "jsString JNull = ''null''"
| "jsString (JBool b) = (if b then ''true'' else ''false'')"
| "jsString (JNum n) = stringOfInt n"
| "jsString (JStr s) = s"
| "jsString (JArr xs) =
     joinComma (map (\<lambda>x. if x = JUndefined \<or> x = JNull then [] else jsString x) xs)"
| "jsString (JObj kvs) = ''[object Object]''"

text \<open>\<^verbatim>\<open>a || b\<close>\<close>

definition jsOr :: "json \<Rightarrow> json \<Rightarrow> json" where
  "jsOr a b = (if truthy a then a else b)"

text \<open>A string that may be absent, tested for truthiness: absent and empty are falsy.\<close>

definition truthyString :: "string option \<Rightarrow> string option" where
  "truthyString s = (case s of None \<Rightarrow> None | Some x \<Rightarrow> if x = [] then None else Some x)"

text \<open>\<^verbatim>\<open>String.prototype.trim\<close>, on the white space of the Latin-1 range.\<close>

definition isWhiteSpace :: "char \<Rightarrow> bool" where
  "isWhiteSpace c = ((of_char c :: nat) \<in> {9, 10, 11, 12, 13, 32, 160})"

definition trim :: "string \<Rightarrow> string" where
  "trim s = rev (dropWhile isWhiteSpace (rev (dropWhile isWhiteSpace s)))"

text \<open>\<^verbatim>\<open>Array.prototype.findIndex\<close>; \<open>None\<close> stands for \<^verbatim>\<open>-1\<close>.\<close>

fun findIndex :: "('a \<Rightarrow> bool) \<Rightarrow> 'a list \<Rightarrow> nat option" where
  "findIndex P [] = None"
| "findIndex P (x # xs) =
     (if P x then Some 0 else (case findIndex P xs of None \<Rightarrow> None | Some i \<Rightarrow> Some (Suc i)))"

section \<open>Data model (.remix/mocks/RemixSDKMock)\<close>

record envelope =
  envelope_id :: string
  envelope_gameState :: json
  envelope_alertUserIds :: "json list option"

text \<open>
  A player. \<open>player_name\<close> is declared a string; the save path fills it from the
  untyped payload, so the model keeps the value as it is.
\<close>

record player =
  player_id :: string
  player_name :: json
  player_imageUrl :: "string option"

record gameInfo =
  info_players :: "player list"
  info_player :: player
  info_viewContext :: string
  info_initialGameState :: "envelope option"

record storedState =
  gameState :: "envelope option"
  players :: "player list"
  currentPlayerId :: "string option"

record instanceHints =
  clientId :: string
  playerId :: "string option"
  playerName :: "string option"

text \<open>A window reference: the host's own \<^verbatim>\<open>window\<close>, or another browsing context.\<close>

datatype win = HostWindow | ClientWindow nat

text \<open>The \<^verbatim>\<open>data\<close> of an event.\<close>

datatype eventData =
    NoData
  | JsonData json
  | EnvelopeData "envelope option"
  | GameInfoData gameInfo
  | AssignedData string string json
  | ClientIdData string
  | HostIdData string
  | MutedData bool

record broadcastEnvelope =
  senderId :: string
  broadcast_type :: string
  broadcast_data :: eventData
  timestamp :: nat

text \<open>
  Messages posted between windows: the host's game events (marked
  \<^verbatim>\<open>__fromRemixDevHost\<close>), the dev-tooling events (\<^verbatim>\<open>remix_sdk_event\<close>, with the
  host id) and the client's game events.
\<close>

datatype message =
    HostGameEvent string eventData
  | DevEvent string eventData string
  | ClientGameEvent string eventData

datatype task =
    SendGameInfo gameInfo string
  | DemoMute bool

datatype error = TypeError

datatype effect =
    PostMessage win message
  | SetTimeout nat task
  | Rejected error

section \<open>Local storage (utils/safeLocalStorage.ts)\<close>

text \<open>
  What \<^verbatim>\<open>JSON.parse\<close> finds under the game-state key: the three fields that
  \<^verbatim>\<open>readPersistedState\<close> tests. \<open>parsed_players = None\<close> stands for a value that is
  not an array, \<open>parsed_currentPlayerId = None\<close> for one that is not a string.
\<close>

record parsedState =
  parsed_gameState :: "envelope option"
  parsed_players :: "player list option"
  parsed_currentPlayerId :: "string option"

text \<open>
  A stored item is the JSON text of one of the values the dev host writes, or any other
  text. \<^verbatim>\<open>JSON.stringify\<close> followed by \<^verbatim>\<open>JSON.parse\<close> is taken as the identity on
  these values.
\<close>

datatype item =
    StateItem parsedState
  | AssignmentsItem "(string \<times> string) list"
  | BroadcastItem broadcastEnvelope
  | OtherItem string

text \<open>
  \<open>isAvailable\<close> is the cached result of the availability probe. Reads of an unavailable
  storage return \<^verbatim>\<open>null\<close>, writes do nothing. A write to an available storage is
  taken to succeed.
\<close>

record store =
  isAvailable :: bool
  items :: "string \<rightharpoonup> item"

definition getItem :: "store \<Rightarrow> string \<Rightarrow> item option" where
  "getItem s key = (if \<not> isAvailable s then None else items s key)"

definition setItem :: "string \<Rightarrow> item \<Rightarrow> store \<Rightarrow> store" where
  "setItem key v s = (if \<not> isAvailable s then s else s\<lparr>items := (items s)(key \<mapsto> v)\<rparr>)"

definition removeItem :: "string \<Rightarrow> store \<Rightarrow> store" where
  "removeItem key s = (if \<not> isAvailable s then s else s\<lparr>items := (items s)(key := None)\<rparr>)"

section \<open>Persisted state and player assignments (.remix/mocks/RemixSDKMock)\<close>

definition DEFAULT_PLAYERS :: "player list" where
  "DEFAULT_PLAYERS =
     [\<lparr>player_id = ''1'', player_name = JStr ''Player 1'', player_imageUrl = None\<rparr>,
      \<lparr>player_id = ''2'', player_name = JStr ''Player 2'', player_imageUrl = None\<rparr>]"

definition createDefaultState :: storedState where
  "createDefaultState = \<lparr>gameState = None, players = DEFAULT_PLAYERS, currentPlayerId = None\<rparr>"

text \<open>
  The two readings of the environment that make an id: \<^verbatim>\<open>Date.now()\<close> and the text
  of \<^verbatim>\<open>Math.random().toString(36)\<close>.
\<close>

record env =
  now :: nat
  random36 :: string

text \<open>\<^verbatim>\<open>`${Date.now()}-${Math.random().toString(36).slice(2, 10)}`\<close>\<close>

definition generateEnvelopeId :: "env \<Rightarrow> string" where
  "generateEnvelopeId e = decimal (now e) @ ''-'' @ take 8 (drop 2 (random36 e))"

text \<open>
  \<open>gameName\<close> is the name \<^verbatim>\<open>getGameName()\<close> resolves to. A missing item, text that
  is not JSON and JSON of another shape all end in the default state.
\<close>

definition readPersistedState :: "string \<Rightarrow> store \<Rightarrow> storedState" where
  "readPersistedState gameName s =
     (case getItem s (getGameStateKey (Some gameName)) of
        Some (StateItem parsed) \<Rightarrow>
          \<lparr>gameState = parsed_gameState parsed,
           players = (case parsed_players parsed of
                        Some ps \<Rightarrow> if length ps \<ge> 2 then ps else DEFAULT_PLAYERS
                      | None \<Rightarrow> DEFAULT_PLAYERS),
           currentPlayerId = parsed_currentPlayerId parsed\<rparr>
      | _ \<Rightarrow> createDefaultState)"

definition persistState :: "string \<Rightarrow> storedState \<Rightarrow> store \<Rightarrow> store" where
  "persistState gameName st s =
     setItem (getGameStateKey (Some gameName))
       (StateItem \<lparr>parsed_gameState = gameState st,
                   parsed_players = Some (players st),
                   parsed_currentPlayerId = currentPlayerId st\<rparr>) s"

definition readPlayerAssignments :: "store \<Rightarrow> (string \<times> string) list" where
  "readPlayerAssignments s =
     (case getItem s PLAYER_ASSIGNMENTS_KEY of
        Some (AssignmentsItem assignments) \<Rightarrow> assignments
      | _ \<Rightarrow> [])"

definition writePlayerAssignments :: "(string \<times> string) list \<Rightarrow> store \<Rightarrow> store" where
  "writePlayerAssignments assignments s =
     setItem PLAYER_ASSIGNMENTS_KEY (AssignmentsItem assignments) s"

definition clearPlayerAssignments :: "store \<Rightarrow> store" where
  "clearPlayerAssignments s = removeItem PLAYER_ASSIGNMENTS_KEY s"

section \<open>Host controller (class RemixDevHostController)\<close>

text \<open>
  The fields of the controller, with the game name its module resolved. The two
  \<^verbatim>\<open>Map\<close>s are association lists in insertion order.
\<close>

record host =
  hostId :: string
  gameName :: string
  isMultiplayer :: bool
  state :: storedState
  clientWindows :: "(string \<times> win) list"
  windowToClientId :: "(win \<times> string) list"
  handledReadyClients :: "string set"

definition publishDevEvent :: "string \<Rightarrow> eventData \<Rightarrow> host \<Rightarrow> effect" where
  "publishDevEvent type data h = PostMessage HostWindow (DevEvent type data (hostId h))"

definition sendGameEvent :: "string \<Rightarrow> eventData \<Rightarrow> string option \<Rightarrow> host \<Rightarrow> effect list" where
  "sendGameEvent type data targetClientId h =
     (case truthyString targetClientId of
        Some target \<Rightarrow>
          (case map_of (clientWindows h) target of
             Some targetWindow \<Rightarrow> [PostMessage targetWindow (HostGameEvent type data)]
           | None \<Rightarrow> [])
      | None \<Rightarrow>
          if clientWindows h = [] then [PostMessage HostWindow (HostGameEvent type data)]
          else map (\<lambda>clientWindow. PostMessage clientWindow (HostGameEvent type data))
                 (map snd (clientWindows h)))"

definition broadcastToOtherWindows :: "string \<Rightarrow> eventData \<Rightarrow> nat \<Rightarrow> host \<Rightarrow> store \<Rightarrow> store" where
  "broadcastToOtherWindows type data dateNow h s =
     setItem BROADCAST_STORAGE_KEY
       (BroadcastItem \<lparr>senderId = hostId h, broadcast_type = type,
                       broadcast_data = data, timestamp = dateNow\<rparr>) s"

text \<open>
  The constructor, and the callback that installs the state read from storage once the
  first read completes.
\<close>

definition newHost :: "string \<Rightarrow> string \<Rightarrow> bool \<Rightarrow> host" where
  "newHost hid name multiplayer =
     \<lparr>hostId = hid, gameName = name, isMultiplayer = multiplayer,
      state = createDefaultState, clientWindows = [], windowToClientId = [],
      handledReadyClients = {}\<rparr>"

definition initialLoad :: "host \<times> store \<Rightarrow> host \<times> store" where
  "initialLoad hs = (case hs of (h, s) \<Rightarrow> (h\<lparr>state := readPersistedState (gameName h) s\<rparr>, s))"

text \<open>
  \<^verbatim>\<open>registerClientWindow(targetWindow, explicitClientId)\<close>, for a window reference
  that is not null. \<open>e\<close> gives the clock and random readings of a minted client id.
\<close>

definition registerClientWindow ::
  "win \<Rightarrow> string option \<Rightarrow> env \<Rightarrow> host \<Rightarrow> string \<times> host \<times> effect list" where
  "registerClientWindow targetWindow explicitClientId e h =
     (case truthyString (map_of (windowToClientId h) targetWindow) of
        Some existingId \<Rightarrow>
          (existingId,
           h\<lparr>clientWindows := AList.update existingId targetWindow (clientWindows h)\<rparr>, [])
      | None \<Rightarrow>
          (let minted = ''client-'' @ decimal (now e) @ ''-'' @ take 8 (drop 2 (random36 e));
               cid = (case truthyString explicitClientId of
                        Some x \<Rightarrow> if length (trim x) > 0 then trim x else minted
                      | None \<Rightarrow> minted);
               isFirstClient = (length (clientWindows h) = 0);
               h' = h\<lparr>clientWindows := AList.update cid targetWindow (clientWindows h),
                      windowToClientId := AList.update targetWindow cid (windowToClientId h)\<rparr>
           in (cid, h',
               publishDevEvent ''client_registered'' (ClientIdData cid) h'
               # (if isFirstClient then [SetTimeout 1500 (DemoMute True)] else []))))"

text \<open>The body of a timer callback, run when the timer fires.\<close>

fun runTask :: "task \<Rightarrow> host \<Rightarrow> effect list" where
  "runTask (SendGameInfo info cid) h =
     sendGameEvent ''game_info'' (GameInfoData info) (Some cid) h
     @ [publishDevEvent ''game_info'' (GameInfoData info) h]"
| "runTask (DemoMute True) h =
     sendGameEvent ''toggle_mute'' (MutedData True) None h
     @ [publishDevEvent ''toggle_mute'' (MutedData True) h, SetTimeout 500 (DemoMute False)]"
| "runTask (DemoMute False) h =
     sendGameEvent ''toggle_mute'' (MutedData False) None h
     @ [publishDevEvent ''toggle_mute'' (MutedData False) h]"

subsection \<open>handleReady\<close>

text \<open>
  The player id of a handshake, with the player list it leaves
  (\<^verbatim>\<open>let resolvedPlayerId ... \<close> up to the write of the assignment).
\<close>

definition resolvePlayerId ::
  "instanceHints \<Rightarrow> (string \<times> string) list \<Rightarrow> bool \<Rightarrow> player list \<Rightarrow> string \<times> player list" where
  "resolvePlayerId hints assignments multiplayer ps =
     (case truthyString (playerId hints) of
        Some hinted \<Rightarrow> (hinted, ps)
      | None \<Rightarrow>
     (case truthyString (map_of assignments (clientId hints)) of
        Some assigned \<Rightarrow> (assigned, ps)
      | None \<Rightarrow>
          if \<not> multiplayer then (''1'', ps)
          else
            (case find (\<lambda>p. player_id p \<notin> set (map snd assignments)) ps of
               Some available \<Rightarrow> (player_id available, ps)
             | None \<Rightarrow>
                 if length ps \<ge> 2 then (''1'', ps)
                 else
                   (let nextIndex = length ps + 1;
                        resolved = decimal nextIndex
                    in (resolved,
                        ps @ [\<lparr>player_id = resolved,
                                player_name = JStr (''Player '' @ decimal nextIndex),
                                player_imageUrl = None\<rparr>])))))"

text \<open>\<^verbatim>\<open>// Only add player if they don't exist\<close>, else rename on a differing hint.\<close>

definition upsertPlayer ::
  "instanceHints \<Rightarrow> string \<Rightarrow> bool \<Rightarrow> player list \<Rightarrow> player list" where
  "upsertPlayer hints resolved multiplayer ps =
     (case findIndex (\<lambda>p. player_id p = resolved) ps of
        None \<Rightarrow>
          if length ps < 2 \<or> multiplayer
          then ps @ [\<lparr>player_id = resolved,
                       player_name = JStr (case truthyString (playerName hints) of
                                             Some n \<Rightarrow> n
                                           | None \<Rightarrow> ''Player '' @ resolved),
                       player_imageUrl = None\<rparr>]
          else ps
      | Some existingIndex \<Rightarrow>
          (case truthyString (playerName hints) of
             Some n \<Rightarrow>
               if player_name (ps ! existingIndex) \<noteq> JStr n
               then ps[existingIndex := (ps ! existingIndex)\<lparr>player_name := JStr n\<rparr>]
               else ps
           | None \<Rightarrow> ps))"

text \<open>\<^verbatim>\<open>// For single player, ensure we only have one player\<close>\<close>

definition trimSinglePlayer :: "bool \<Rightarrow> player list \<Rightarrow> player list" where
  "trimSinglePlayer multiplayer ps =
     (if \<not> multiplayer \<and> length ps > 1 then [ps ! 0] else ps)"

text \<open>
  \<open>hints\<close> is what \<^verbatim>\<open>readInstanceHints\<close> reads from the source window (or from the
  host's window when the source is null). The handler returns the new host and storage
  and what it posted and scheduled; a handshake already handled returns at once.
\<close>

definition handleReady ::
  "win option \<Rightarrow> instanceHints \<Rightarrow> env \<Rightarrow> host \<times> store \<Rightarrow> (host \<times> store) \<times> effect list" where
  "handleReady sourceWindow hints e hs =
     (case hs of (h, s) \<Rightarrow>
      if clientId hints \<in> handledReadyClients h then ((h, s), [])
      else
        (let h1 = h\<lparr>handledReadyClients := insert (clientId hints) (handledReadyClients h)\<rparr>;
             st0 = readPersistedState (gameName h) s;
             assignments = readPlayerAssignments s;
             (resolvedPlayerId, ps1) =
                resolvePlayerId hints assignments (isMultiplayer h) (players st0);
             s1 = writePlayerAssignments
                    (AList.update (clientId hints) resolvedPlayerId assignments) s;
             ps2 = upsertPlayer hints resolvedPlayerId (isMultiplayer h) ps1;
             ps3 = trimSinglePlayer (isMultiplayer h) ps2;
             st = st0\<lparr>players := ps3\<rparr>;
             h2 = h1\<lparr>state := st\<rparr>;
             s2 = persistState (gameName h) st s1;
             (registeredId, h3, registered) =
                (case sourceWindow of
                   Some w \<Rightarrow> registerClientWindow w (Some (clientId hints)) e h2
                 | None \<Rightarrow>
                     if map_of (clientWindows h2) (clientId hints) = None
                     then (clientId hints,
                           h2\<lparr>clientWindows :=
                                 AList.update (clientId hints) HostWindow (clientWindows h2)\<rparr>,
                           [])
                     else (clientId hints, h2, []));
             found = (case find (\<lambda>p. player_id p = resolvedPlayerId) ps3 of
                        Some p \<Rightarrow> Some p
                      | None \<Rightarrow> (case ps3 of [] \<Rightarrow> None | p # _ \<Rightarrow> Some p))
         in case found of
              None \<Rightarrow> ((h3, s2), registered @ [Rejected TypeError])
            | Some p \<Rightarrow>
                (let info = \<lparr>info_players = ps3, info_player = p,
                             info_viewContext = ''full_screen'',
                             info_initialGameState = gameState st\<rparr>
                 in ((h3, s2),
                     registered
                     @ [publishDevEvent ''game_info_assigned''
                          (AssignedData registeredId resolvedPlayerId (player_name p)) h3,
                        SetTimeout 50 (SendGameInfo info registeredId)]))))"

subsection \<open>handleSaveGameState\<close>

text \<open>One element of \<^verbatim>\<open>typed.players.map((p, index) => ...)\<close>.\<close>

definition rosterEntry :: "nat \<Rightarrow> json \<Rightarrow> player" where
  "rosterEntry index p =
     \<lparr>player_id = jsString (jsOr (jsOr (getProp p ''id'') (getProp p ''playerId''))
                                (JNum (int index + 1))),
      player_name = jsOr (jsOr (getProp p ''name'') (getProp p ''username''))
                      (JStr (''Player '' @ decimal (index + 1))),
      player_imageUrl = None\<rparr>"

text \<open>Reading a property of \<^verbatim>\<open>null\<close> or \<^verbatim>\<open>undefined\<close> throws a TypeError.\<close>

definition nullish :: "json \<Rightarrow> bool" where
  "nullish v = (v = JUndefined \<or> v = JNull)"

definition roster :: "json list \<Rightarrow> error + player list" where
  "roster ps =
     (if list_ex nullish ps then Inl TypeError
      else Inr (map (\<lambda>(index, p). rosterEntry index p) (enumerate 0 ps)))"

text \<open>
  The envelope of a save: \<^verbatim>\<open>data.gameState ? { id: generateEnvelopeId(), ... } : null\<close>.
\<close>

definition saveEnvelope :: "json \<Rightarrow> env \<Rightarrow> envelope option" where
  "saveEnvelope data e =
     (if truthy (getProp data ''gameState'')
      then Some \<lparr>envelope_id = generateEnvelopeId e,
                 envelope_gameState = getProp data ''gameState'',
                 envelope_alertUserIds =
                   (case getProp data ''alertUserIds'' of
                      JArr ids \<Rightarrow> Some ids
                    | _ \<Rightarrow> None)\<rparr>
      else None)"

text \<open>
  \<^verbatim>\<open>if (typed && Array.isArray(typed.players) && typed.players.length >= 2)\<close>: the
  player list is replaced by the roster of the payload.
\<close>

definition saveRoster :: "json \<Rightarrow> storedState \<Rightarrow> error + storedState" where
  "saveRoster typed st =
     (case (if truthy typed then getProp typed ''players'' else JUndefined) of
        JArr ps \<Rightarrow>
          if length ps \<ge> 2
          then (case roster ps of
                  Inl err \<Rightarrow> Inl err
                | Inr rs \<Rightarrow> Inr (st\<lparr>players := rs\<rparr>))
          else Inr st
      | _ \<Rightarrow> Inr st)"

text \<open>
  The turn indicator: a numeric \<^verbatim>\<open>currentPlayer\<close>, else a string \<^verbatim>\<open>turn\<close>
  (\<^verbatim>\<open>'w'\<close> is player 1, anything else player 2).
\<close>

definition saveCurrentPlayer :: "json \<Rightarrow> storedState \<Rightarrow> storedState" where
  "saveCurrentPlayer typed st =
     (case (if truthy typed then getProp typed ''currentPlayer'' else JUndefined) of
        JNum n \<Rightarrow> st\<lparr>currentPlayerId := Some (jsString (JNum n))\<rparr>
      | _ \<Rightarrow>
          (case (if truthy typed then getProp typed ''turn'' else JUndefined) of
             JStr turn \<Rightarrow> st\<lparr>currentPlayerId := Some (if turn = ''w'' then ''1'' else ''2'')\<rparr>
           | _ \<Rightarrow> st))"

text \<open>
  \<open>e\<close> gives the readings behind the envelope id, \<open>dateNow\<close> the clock reading of the
  broadcast. When the roster throws, the handler has replaced the game state in memory
  and stops before it persists.
\<close>

definition handleSaveGameState ::
  "json \<Rightarrow> env \<Rightarrow> nat \<Rightarrow> host \<times> store \<Rightarrow> (host \<times> store) \<times> effect list" where
  "handleSaveGameState data e dateNow hs =
     (case hs of (h, s) \<Rightarrow>
      if \<not> truthy data \<or> \<not> typeofObject data then ((h, s), [])
      else
        (let envelope = saveEnvelope data e;
             st1 = (state h)\<lparr>gameState := envelope\<rparr>;
             typed = getProp data ''gameState''
         in case saveRoster typed st1 of
              Inl err \<Rightarrow> ((h\<lparr>state := st1\<rparr>, s), [Rejected err])
            | Inr st2 \<Rightarrow>
                (let st3 = saveCurrentPlayer typed st2;
                     h' = h\<lparr>state := st3\<rparr>;
                     s1 = persistState (gameName h) st3 s;
                     s2 = broadcastToOtherWindows ''game_state_updated''
                            (EnvelopeData envelope) dateNow h' s1
                 in ((h', s2),
                     sendGameEvent ''game_state_updated'' (EnvelopeData envelope) None h'
                     @ [publishDevEvent ''game_state_updated'' (EnvelopeData envelope) h']))))"

subsection \<open>handleMultiplayerGameOver and resetState\<close>

definition handleMultiplayerGameOver ::
  "json \<Rightarrow> nat \<Rightarrow> host \<times> store \<Rightarrow> (host \<times> store) \<times> effect list" where
  "handleMultiplayerGameOver data dateNow hs =
     (case hs of (h, s) \<Rightarrow>
        (let st = (state h)\<lparr>gameState := None, currentPlayerId := None\<rparr>;
             h' = h\<lparr>state := st\<rparr>;
             s1 = persistState (gameName h) st s;
             s2 = broadcastToOtherWindows ''multiplayer_game_over'' (JsonData data) dateNow h' s1;
             s3 = clearPlayerAssignments s2
         in ((h', s3),
             sendGameEvent ''multiplayer_game_over'' (JsonData data) None h'
             @ [publishDevEvent ''multiplayer_game_over'' (JsonData data) h'])))"

definition resetState :: "host \<times> store \<Rightarrow> (host \<times> store) \<times> effect list" where
  "resetState hs =
     (case hs of (h, s) \<Rightarrow>
        (let s1 = persistState (gameName h) createDefaultState s;
             s2 = clearPlayerAssignments s1;
             h' = h\<lparr>state := createDefaultState, clientWindows := [],
                    windowToClientId := [], handledReadyClients := {}\<rparr>
         in ((h', s2), sendGameEvent ''game_state_updated'' (EnvelopeData None) None h')))"

subsection \<open>Sequences of host operations\<close>

datatype operation =
    Ready "win option" instanceHints env
  | SaveGameState json env nat
  | MultiplayerGameOver json nat
  | ResetState
  | InitialLoad

fun step :: "operation \<Rightarrow> host \<times> store \<Rightarrow> (host \<times> store) \<times> effect list" where
  "step (Ready sourceWindow hints e) hs = handleReady sourceWindow hints e hs"
| "step (SaveGameState data e dateNow) hs = handleSaveGameState data e dateNow hs"
| "step (MultiplayerGameOver data dateNow) hs = handleMultiplayerGameOver data dateNow hs"
| "step ResetState hs = resetState hs"
| "step InitialLoad hs = (initialLoad hs, [])"

fun run :: "operation list \<Rightarrow> host \<times> store \<Rightarrow> host \<times> store" where
  "run [] hs = hs"
| "run (operation # ops) hs = run ops (fst (step operation hs))"

text \<open>The players list persisted under the game's key, if a state is persisted.\<close>

definition persistedPlayers :: "host \<times> store \<Rightarrow> player list option" where
  "persistedPlayers hs =
     (case hs of (h, s) \<Rightarrow>
        (case getItem s (getGameStateKey (Some (gameName h))) of
           Some (StateItem parsed) \<Rightarrow> parsed_players parsed
         | _ \<Rightarrow> None))"

section \<open>Client SDK facade (class FarcadeSDKMock)\<close>

text \<open>
  The fields of the facade that the handshake uses. A promise is the reference of a
  \<^verbatim>\<open>Promise\<close> object: \<open>promises\<close> counts the objects created so far, and the next
  one created gets that number. \<open>settled\<close> records the promises resolved, with their
  values, and \<open>posted\<close> the messages passed to \<^verbatim>\<open>target.postMessage\<close>, in order.
  The listener registry is left out: a listener is game code, and what it calls on the
  facade appears as further calls.
\<close>

record facade =
  isClient :: bool
  target :: "win option"
  readyPromiseResolve :: "nat option"
  hasHostReady :: bool
  readyPromise :: "nat option"
  readySent :: bool
  promises :: nat
  settled :: "(nat \<times> eventData) list"
  posted :: "(win \<times> message) list"


definition sendMessage :: "string \<Rightarrow> eventData \<Rightarrow> facade \<Rightarrow> facade" where
  "sendMessage type data f =
     (if \<not> isClient f then f
      else (case target f of
              None \<Rightarrow> f
            | Some w \<Rightarrow> f\<lparr>posted := posted f @ [(w, ClientGameEvent type data)]\<rparr>))"


definition emit :: "string \<Rightarrow> eventData \<Rightarrow> facade \<Rightarrow> facade" where
  "emit eventType data f =
     (let f1 = (if eventType = ''ready'' then f\<lparr>hasHostReady := True\<rparr> else f)
      in case (if eventType = ''game_info'' then readyPromiseResolve f1 else None) of
           Some p \<Rightarrow> f1\<lparr>settled := settled f1 @ [(p, data)], readyPromiseResolve := None\<rparr>
         | None \<Rightarrow> f1)"







text \<open>The handshake messages among the messages posted.\<close>

definition readyMessages :: "facade \<Rightarrow> (win \<times> message) list" where
  "readyMessages f = filter (\<lambda>wm. snd wm = ClientGameEvent ''ready'' NoData) (posted f)"


section \<open>Auxiliary definitions for the proofs\<close>

text \<open>
  The player id a processed handshake resolves and the player list it leaves, as
  \<open>handleReady\<close> computes them from the storage it reads.
\<close>

definition readyPlayers :: "instanceHints \<Rightarrow> host \<Rightarrow> store \<Rightarrow> string \<times> player list" where
  "readyPlayers hints h s =
     (case resolvePlayerId hints (readPlayerAssignments s) (isMultiplayer h)
             (players (readPersistedState (gameName h) s)) of
        (resolved, ps1) \<Rightarrow>
          (resolved,
           trimSinglePlayer (isMultiplayer h)
             (upsertPlayer hints resolved (isMultiplayer h) ps1)))"

text \<open>The game state persisted under the game's key, and the item of the broadcast key.\<close>

definition persistedGameState :: "host \<times> store \<Rightarrow> envelope option" where
  "persistedGameState hs =
     (case hs of (h, s) \<Rightarrow>
        (case getItem s (getGameStateKey (Some (gameName h))) of
           Some (StateItem parsed) \<Rightarrow> parsed_gameState parsed
         | _ \<Rightarrow> None))"

definition lastBroadcast :: "store \<Rightarrow> (string \<times> eventData) option" where
  "lastBroadcast s =
     (case getItem s BROADCAST_STORAGE_KEY of
        Some (BroadcastItem b) \<Rightarrow> Some (broadcast_type b, broadcast_data b)
      | _ \<Rightarrow> None)"

text \<open>The data of the game events and dev events among the effects of a handler.\<close>

fun postedData :: "effect \<Rightarrow> eventData list" where
  "postedData (PostMessage w (HostGameEvent type data)) = [data]"
| "postedData (PostMessage w (DevEvent type data hid)) = [data]"
| "postedData eff = []"







section \<open>Properties of the codec\<close>

lemma map_of_filter_other:
  "k' \<noteq> k \<Longrightarrow> map_of (filter (\<lambda>kv. fst kv \<noteq> k) kvs) k' = map_of kvs k'"
  by (induction kvs) auto

lemma map_of_filter_same: "map_of (filter (\<lambda>kv. fst kv \<noteq> k) kvs) k = None"
  by (induction kvs) auto

lemma hasKey_restWithout: "hasKey k' (JObj (restWithout k v)) = (hasKey k' v \<and> k' \<noteq> k)"
  by (auto simp: hasKey_def restWithout_def)

lemma keys_restWithout: "fst ` set (restWithout k v) = fst ` set (ownProps v) - {k}"
  by (auto simp: restWithout_def)

lemma hasKey_spreadWith: "hasKey k' (spreadWith rest k x) = (k' = k \<or> k' \<in> fst ` set rest)"
  by (auto simp: hasKey_def spreadWith_def dom_update)

lemma getProp_spreadWith:
  "getProp (spreadWith rest k x) k' = (if k' = k then x else getProp (JObj rest) k')"
  by (simp add: getProp_def spreadWith_def update_conv')

lemma getProp_restWithout:
  "getProp (JObj (restWithout k v)) k' = (if k' = k then JUndefined else getProp v k')"
  by (simp add: getProp_def restWithout_def map_of_filter_other map_of_filter_same)

lemma restWithout_absent: "\<not> hasKey k v \<Longrightarrow> restWithout k v = ownProps v"
  by (auto simp: hasKey_def restWithout_def filter_id_conv)

lemma restWithout_twice: "restWithout k (JObj (restWithout k v)) = restWithout k v"
  by (simp add: restWithout_def)

lemma restWithout_spreadWith:
  assumes "k' \<noteq> k"
  shows "restWithout k (spreadWith (restWithout k v) k' x) = AList.update k' x (restWithout k v)"
proof -
  have "\<not> hasKey k (spreadWith (restWithout k v) k' x)"
    using assms by (auto simp: hasKey_spreadWith restWithout_def)
  from restWithout_absent[OF this] show ?thesis by (simp add: spreadWith_def)
qed

lemma update_twice: "AList.update k x (AList.update k y al) = AList.update k x al"
  by (induction al) auto

lemma normalize_not_plain: "\<not> isPlainObject raw \<Longrightarrow> normalizeGameState raw = raw"
  by (cases raw) (auto simp: normalizeGameState_def hasKey_def)

lemma normalize_idempotent:
  "normalizeGameState (normalizeGameState raw) = normalizeGameState raw"
proof (cases "isPlainObject raw")
  case False
  then show ?thesis by (simp add: normalize_not_plain)
next
  case True
  then obtain kvs where raw: "raw = JObj kvs" by (cases raw) auto
  have "normalizeGameState (normalizeGameState (JObj kvs)) = normalizeGameState (JObj kvs)"
    by (simp add: normalizeGameState_def Let_def hasKey_restWithout hasKey_spreadWith
          getProp_restWithout getProp_spreadWith restWithout_twice restWithout_spreadWith)
       (auto simp: spreadWith_def update_twice)
  with raw show ?thesis by simp
qed

lemma normalize_data_only:
  "normalizeGameState (JObj [(''data'', x)]) = JObj [(''gameState'', x)]"
  by (simp add: normalizeGameState_def hasKey_def getProp_def restWithout_def spreadWith_def)

lemma normalize_gameState_only:
  assumes "hasKey ''gameState'' (JObj kvs)" and "\<not> hasKey ''data'' (JObj kvs)"
  shows "normalizeGameState (JObj kvs) = JObj kvs"
proof -
  from assms(2) have "map_of kvs ''data'' = None"
    by (simp add: map_of_eq_None_iff hasKey_def)
  then have "getProp (JObj kvs) ''data'' = JUndefined"
    by (simp add: getProp_def)
  with assms show ?thesis
    by (simp add: normalizeGameState_def Let_def restWithout_absent)
qed

text \<open>
  C5. The Game-State Codec is idempotent; applied to \<^verbatim>\<open>{data: X}\<close> it returns
  \<^verbatim>\<open>{gameState: X}\<close>; an object with a \<^verbatim>\<open>gameState\<close> key and no \<^verbatim>\<open>data\<close> key is
  returned unchanged; and every input that is not a plain object (a primitive,
  \<^verbatim>\<open>null\<close>, \<^verbatim>\<open>undefined\<close>, also an array) passes through unchanged. Values are
  compared structurally, so "unchanged" is deep equality.
\<close>

theorem normalizeGameState_codec:
  "normalizeGameState (normalizeGameState raw) = normalizeGameState raw
   \<and> normalizeGameState (JObj [(''data'', x)]) = JObj [(''gameState'', x)]
   \<and> (hasKey ''gameState'' (JObj kvs) \<and> \<not> hasKey ''data'' (JObj kvs)
        \<longrightarrow> normalizeGameState (JObj kvs) = JObj kvs)
   \<and> (\<not> isPlainObject v \<longrightarrow> normalizeGameState v = v)"
  using normalize_idempotent normalize_data_only normalize_gameState_only normalize_not_plain
  by blast

theorem normalizeGameState_codec_witness:
  "normalizeGameState (normalizeGameState (JObj [(''data'', JNum 1), (''turn'', JStr ''w'')]))
     = normalizeGameState (JObj [(''data'', JNum 1), (''turn'', JStr ''w'')])
   \<and> normalizeGameState (JObj [(''data'', JNum 1)]) = JObj [(''gameState'', JNum 1)]
   \<and> hasKey ''gameState'' (JObj [(''id'', JStr ''a''), (''gameState'', JNull)])
   \<and> \<not> hasKey ''data'' (JObj [(''id'', JStr ''a''), (''gameState'', JNull)])
   \<and> normalizeGameState (JObj [(''id'', JStr ''a''), (''gameState'', JNull)])
       = JObj [(''id'', JStr ''a''), (''gameState'', JNull)]
   \<and> \<not> isPlainObject (JArr [JNum 1])
   \<and> normalizeGameState (JArr [JNum 1]) = JArr [JNum 1]"
  using normalizeGameState_codec
          [of "JObj [(''data'', JNum 1), (''turn'', JStr ''w'')]" "JNum 1"
              "[(''id'', JStr ''a''), (''gameState'', JNull)]" "JArr [JNum 1]"]
  by (simp add: hasKey_def)

text \<open>
  C6, as amended. For every object carrying both a \<^verbatim>\<open>data\<close> key and a
  \<^verbatim>\<open>gameState\<close> key, the codec returns an object that has the \<^verbatim>\<open>gameState\<close> key and
  not the \<^verbatim>\<open>data\<close> key; it keeps the \<^verbatim>\<open>gameState\<close> value unless that value is
  \<^verbatim>\<open>undefined\<close>, and only then falls back to the \<^verbatim>\<open>data\<close> value.
\<close>

theorem normalizeGameState_both_keys:
  assumes "hasKey ''gameState'' raw" and "hasKey ''data'' raw"
  shows "\<not> hasKey ''data'' (normalizeGameState raw)
       \<and> hasKey ''gameState'' (normalizeGameState raw)
       \<and> getProp (normalizeGameState raw) ''gameState''
           = (if getProp raw ''gameState'' \<noteq> JUndefined then getProp raw ''gameState''
              else getProp raw ''data'')"
proof -
  from assms(1) obtain kvs where raw: "raw = JObj kvs"
    by (cases raw) (auto simp: hasKey_def)
  from assms raw show ?thesis
    by (simp add: normalizeGameState_def Let_def hasKey_restWithout hasKey_spreadWith
          getProp_restWithout getProp_spreadWith keys_restWithout)
qed

theorem normalizeGameState_both_keys_witness:
  "hasKey ''gameState'' (JObj [(''gameState'', JUndefined), (''data'', JNum 7)])
   \<and> hasKey ''data'' (JObj [(''gameState'', JUndefined), (''data'', JNum 7)])
   \<and> \<not> hasKey ''data''
         (normalizeGameState (JObj [(''gameState'', JUndefined), (''data'', JNum 7)]))
   \<and> getProp (normalizeGameState (JObj [(''gameState'', JUndefined), (''data'', JNum 7)]))
        ''gameState'' = JNum 7"
proof -
  have a: "hasKey ''gameState'' (JObj [(''gameState'', JUndefined), (''data'', JNum 7)])"
    and b: "hasKey ''data'' (JObj [(''gameState'', JUndefined), (''data'', JNum 7)])"
    by (simp_all add: hasKey_def)
  from a b normalizeGameState_both_keys[OF a b] show ?thesis
    by (simp add: getProp_def)
qed

text \<open>
  The claim as first stated fails where the \<^verbatim>\<open>gameState\<close> value is empty but not
  \<^verbatim>\<open>undefined\<close>: an empty object and \<^verbatim>\<open>null\<close> are kept, the \<^verbatim>\<open>data\<close> value is
  dropped.
\<close>

theorem normalizeGameState_empty_counterexample:
  "isEmptyValue (JObj []) \<and> isEmptyValue JNull
   \<and> normalizeGameState (JObj [(''gameState'', JObj []), (''data'', JObj [(''a'', JNum 1)])])
       = JObj [(''gameState'', JObj [])]
   \<and> normalizeGameState (JObj [(''gameState'', JNull), (''data'', JObj [(''a'', JNum 1)])])
       = JObj [(''gameState'', JNull)]"
  by (simp add: normalizeGameState_def hasKey_def getProp_def restWithout_def)

section \<open>Properties of the storage keys\<close>

lemma isAvailable_setItem [simp]: "isAvailable (setItem k v s) = isAvailable s"
  by (simp add: setItem_def)

lemma isAvailable_removeItem [simp]: "isAvailable (removeItem k s) = isAvailable s"
  by (simp add: removeItem_def)

lemma getItem_setItem [simp]:
  "getItem (setItem k v s) k' = (if isAvailable s \<and> k' = k then Some v else getItem s k')"
  by (simp add: getItem_def setItem_def)

lemma getItem_removeItem [simp]:
  "getItem (removeItem k s) k' = (if k' = k then None else getItem s k')"
  by (simp add: getItem_def removeItem_def)

lemma getItem_broadcastToOtherWindows [simp]:
  "getItem (broadcastToOtherWindows t d tm h s) k =
     (if isAvailable s \<and> k = BROADCAST_STORAGE_KEY
      then Some (BroadcastItem \<lparr>senderId = hostId h, broadcast_type = t, broadcast_data = d,
                                timestamp = tm\<rparr>)
      else getItem s k)"
  by (simp add: broadcastToOtherWindows_def)

text \<open>
  C8, as amended. For every game name, the canonical game-state storage key is the prefix
  \<^verbatim>\<open>remix_game_state_\<close> followed by the game name in which every character outside
  \<^verbatim>\<open>[A-Za-z0-9-_]\<close> is replaced by an underscore: the key keeps the length of the
  name, a character of the class stays where it is, any other position holds
  \<^verbatim>\<open>_\<close>. The panel computes the same key. The broadcast side-channel writes
  one fixed global key, whatever the game, and leaves every other key as it is.
\<close>

theorem storage_keys:
  "take 17 (getGameStateKey (Some name)) = ''remix_game_state_''
   \<and> length (getGameStateKey (Some name)) = 17 + length name
   \<and> (\<forall>i < length name.
         getGameStateKey (Some name) ! (17 + i)
           = (if inKeyClass (name ! i) then name ! i else CHR ''_''))
   \<and> panelGetGameStateKey True (Some name) = Some (getGameStateKey (Some name))
   \<and> (isAvailable s \<longrightarrow>
         getItem (broadcastToOtherWindows type data dateNow h s) BROADCAST_STORAGE_KEY
           = Some (BroadcastItem \<lparr>senderId = hostId h, broadcast_type = type,
                                   broadcast_data = data, timestamp = dateNow\<rparr>)
         \<and> (\<forall>key. key \<noteq> BROADCAST_STORAGE_KEY \<longrightarrow>
               getItem (broadcastToOtherWindows type data dateNow h s) key = getItem s key))"
  by (simp add: getGameStateKey_def panelGetGameStateKey_def cleanName_def nth_append)

theorem storage_keys_witness:
  "getGameStateKey (Some ''my game'') = ''remix_game_state_my_game''
   \<and> getGameStateKey (Some ''my game'') ! (17 + 2) = CHR ''_''
   \<and> panelGetGameStateKey True (Some ''my game'') = Some ''remix_game_state_my_game''
   \<and> getItem (broadcastToOtherWindows ''game_state_updated'' (EnvelopeData None) 5
                (newHost ''h1'' ''my game'' True) \<lparr>isAvailable = True, items = Map.empty\<rparr>)
        (getGameStateKey (Some ''my game'')) = None"
  using storage_keys[of "''my game''" "\<lparr>isAvailable = True, items = Map.empty\<rparr>"
          "''game_state_updated''" "EnvelopeData None" 5 "newHost ''h1'' ''my game'' True"]
  by (simp add: getGameStateKey_def cleanName_def inKeyClass_def getItem_def
        BROADCAST_STORAGE_KEY_def)

text \<open>
  The claim as first stated says the characters outside the class are removed. The game
  name \<^verbatim>\<open>my game\<close> gives the key \<^verbatim>\<open>remix_game_state_my_game\<close>, not
  \<^verbatim>\<open>remix_game_state_mygame\<close>.
\<close>

theorem storage_key_strip_counterexample:
  "getGameStateKey (Some ''my game'') = ''remix_game_state_my_game''
   \<and> ''remix_game_state_'' @ strippedName ''my game'' = ''remix_game_state_mygame''
   \<and> getGameStateKey (Some ''my game'') \<noteq> ''remix_game_state_'' @ strippedName ''my game''"
  by (simp add: getGameStateKey_def cleanName_def inKeyClass_def strippedName_def)

section \<open>Properties of the facade\<close>


lemma sendMessage_fields [simp]:
  "isClient (sendMessage t d f) = isClient f"
  "target (sendMessage t d f) = target f"
  "readyPromise (sendMessage t d f) = readyPromise f"
  "readySent (sendMessage t d f) = readySent f"
  by (simp_all add: sendMessage_def split: option.splits)


lemma emit_fields [simp]:
  "isClient (emit t d f) = isClient f"
  "target (emit t d f) = target f"
  "readyPromise (emit t d f) = readyPromise f"
  "readySent (emit t d f) = readySent f"
  "posted (emit t d f) = posted f"
  by (simp_all add: emit_def Let_def split: option.splits)

lemma readyMessages_emit [simp]: "readyMessages (emit t d f) = readyMessages f"
  by (simp add: readyMessages_def)








section \<open>Properties of the host controller\<close>

lemma stateKey_neq_assignments [simp]:
  "getGameStateKey n \<noteq> PLAYER_ASSIGNMENTS_KEY" "PLAYER_ASSIGNMENTS_KEY \<noteq> getGameStateKey n"
  by (simp_all add: getGameStateKey_def PLAYER_ASSIGNMENTS_KEY_def)

lemma stateKey_neq_broadcast [simp]:
  "getGameStateKey n \<noteq> BROADCAST_STORAGE_KEY" "BROADCAST_STORAGE_KEY \<noteq> getGameStateKey n"
  by (simp_all add: getGameStateKey_def BROADCAST_STORAGE_KEY_def)

lemma assignments_neq_broadcast [simp]:
  "PLAYER_ASSIGNMENTS_KEY \<noteq> BROADCAST_STORAGE_KEY" "BROADCAST_STORAGE_KEY \<noteq> PLAYER_ASSIGNMENTS_KEY"
  by (simp_all add: PLAYER_ASSIGNMENTS_KEY_def BROADCAST_STORAGE_KEY_def)

lemma isAvailable_ops [simp]:
  "isAvailable (persistState n st s) = isAvailable s"
  "isAvailable (writePlayerAssignments a s) = isAvailable s"
  "isAvailable (clearPlayerAssignments s) = isAvailable s"
  "isAvailable (broadcastToOtherWindows t d tm h s) = isAvailable s"
  by (simp_all add: persistState_def writePlayerAssignments_def clearPlayerAssignments_def
        broadcastToOtherWindows_def)

lemma getItem_persistState [simp]:
  "getItem (persistState n st s) k =
     (if isAvailable s \<and> k = getGameStateKey (Some n)
      then Some (StateItem \<lparr>parsed_gameState = gameState st, parsed_players = Some (players st),
                            parsed_currentPlayerId = currentPlayerId st\<rparr>)
      else getItem s k)"
  by (simp add: persistState_def)

lemma getItem_writePlayerAssignments [simp]:
  "getItem (writePlayerAssignments a s) k =
     (if isAvailable s \<and> k = PLAYER_ASSIGNMENTS_KEY then Some (AssignmentsItem a) else getItem s k)"
  by (simp add: writePlayerAssignments_def)

lemma getItem_clearPlayerAssignments [simp]:
  "getItem (clearPlayerAssignments s) k = (if k = PLAYER_ASSIGNMENTS_KEY then None else getItem s k)"
  by (simp add: clearPlayerAssignments_def)

lemma length_readPersistedState: "2 \<le> length (players (readPersistedState n s))"
  by (simp add: readPersistedState_def createDefaultState_def DEFAULT_PLAYERS_def
        split: option.splits item.splits)

lemma registerClientWindow_fields [simp]:
  "state (fst (snd (registerClientWindow w x e h))) = state h"
  "handledReadyClients (fst (snd (registerClientWindow w x e h))) = handledReadyClients h"
  "isMultiplayer (fst (snd (registerClientWindow w x e h))) = isMultiplayer h"
  "gameName (fst (snd (registerClientWindow w x e h))) = gameName h"
  "hostId (fst (snd (registerClientWindow w x e h))) = hostId h"
  by (simp_all add: registerClientWindow_def Let_def split: option.splits)

lemma fst_case_option: "fst (case x of None \<Rightarrow> (a, b) | Some p \<Rightarrow> (a, c p)) = a"
  by (cases x) simp_all

lemma handleReady_fst:
  assumes "clientId hints \<notin> handledReadyClients h"
  shows "fst (handleReady sw hints e (h, s)) =
     (let st = (readPersistedState (gameName h) s)\<lparr>players := snd (readyPlayers hints h s)\<rparr>;
          h2 = h\<lparr>handledReadyClients := insert (clientId hints) (handledReadyClients h),
                 state := st\<rparr>
      in ((case sw of
             Some w \<Rightarrow> fst (snd (registerClientWindow w (Some (clientId hints)) e h2))
           | None \<Rightarrow> if map_of (clientWindows h2) (clientId hints) = None
                      then h2\<lparr>clientWindows := AList.update (clientId hints) HostWindow (clientWindows h2)\<rparr>
                      else h2),
          persistState (gameName h) st
            (writePlayerAssignments
               (AList.update (clientId hints) (fst (readyPlayers hints h s))
                  (readPlayerAssignments s)) s)))"
  using assms
  apply (simp add: handleReady_def readyPlayers_def Let_def case_prod_beta fst_case_option)
  apply (cases sw)
   apply auto
  done

lemma handleReady_snd_handled:
  "clientId hints \<in> handledReadyClients h \<Longrightarrow> handleReady sw hints e (h, s) = ((h, s), [])"
  by (simp add: handleReady_def)

lemma handleReady_host:
  assumes "clientId hints \<notin> handledReadyClients h"
  shows "state (fst (fst (handleReady sw hints e (h, s))))
           = (readPersistedState (gameName h) s)\<lparr>players := snd (readyPlayers hints h s)\<rparr>"
    and "handledReadyClients (fst (fst (handleReady sw hints e (h, s))))
           = insert (clientId hints) (handledReadyClients h)"
    and "isMultiplayer (fst (fst (handleReady sw hints e (h, s)))) = isMultiplayer h"
    and "gameName (fst (fst (handleReady sw hints e (h, s)))) = gameName h"
    and "hostId (fst (fst (handleReady sw hints e (h, s)))) = hostId h"
  by (simp_all add: handleReady_fst[OF assms] Let_def split: option.splits)

lemma handleReady_store:
  assumes "clientId hints \<notin> handledReadyClients h"
  shows "snd (fst (handleReady sw hints e (h, s)))
           = persistState (gameName h)
               ((readPersistedState (gameName h) s)\<lparr>players := snd (readyPlayers hints h s)\<rparr>)
               (writePlayerAssignments
                  (AList.update (clientId hints) (fst (readyPlayers hints h s))
                     (readPlayerAssignments s)) s)"
  by (simp add: handleReady_fst[OF assms] Let_def)

lemma length_readyPlayers_single:
  "\<not> isMultiplayer h \<Longrightarrow> length (snd (readyPlayers hints h s)) = 1"
  using length_readPersistedState[of "gameName h" s]
  by (auto simp: readyPlayers_def resolvePlayerId_def upsertPlayer_def trimSinglePlayer_def
        split: option.splits)

lemma handled_handleReady:
  "clientId hints \<in> handledReadyClients (fst (fst (handleReady sw hints e hs)))"
proof (cases hs)
  case (Pair h s)
  show ?thesis
  proof (cases "clientId hints \<in> handledReadyClients h")
    case True
    with Pair show ?thesis by (simp add: handleReady_snd_handled)
  next
    case False
    with Pair show ?thesis by (simp add: handleReady_host(2))
  qed
qed

lemma handled_mono_handleReady:
  "handledReadyClients (fst hs) \<subseteq> handledReadyClients (fst (fst (handleReady sw hints e hs)))"
proof (cases hs)
  case (Pair h s)
  show ?thesis
  proof (cases "clientId hints \<in> handledReadyClients h")
    case True
    with Pair show ?thesis by (simp add: handleReady_snd_handled)
  next
    case False
    with Pair show ?thesis by (auto simp add: handleReady_host(2))
  qed
qed

lemma handleSaveGameState_frame:
  "handledReadyClients (fst (fst (handleSaveGameState data e tm hs))) = handledReadyClients (fst hs)
   \<and> clientWindows (fst (fst (handleSaveGameState data e tm hs))) = clientWindows (fst hs)
   \<and> windowToClientId (fst (fst (handleSaveGameState data e tm hs))) = windowToClientId (fst hs)
   \<and> isMultiplayer (fst (fst (handleSaveGameState data e tm hs))) = isMultiplayer (fst hs)
   \<and> gameName (fst (fst (handleSaveGameState data e tm hs))) = gameName (fst hs)
   \<and> hostId (fst (fst (handleSaveGameState data e tm hs))) = hostId (fst hs)"
  by (cases hs) (simp add: handleSaveGameState_def Let_def split: sum.splits)

lemma handleMultiplayerGameOver_frame:
  "handledReadyClients (fst (fst (handleMultiplayerGameOver data tm hs))) = handledReadyClients (fst hs)
   \<and> clientWindows (fst (fst (handleMultiplayerGameOver data tm hs))) = clientWindows (fst hs)
   \<and> windowToClientId (fst (fst (handleMultiplayerGameOver data tm hs))) = windowToClientId (fst hs)
   \<and> isMultiplayer (fst (fst (handleMultiplayerGameOver data tm hs))) = isMultiplayer (fst hs)
   \<and> gameName (fst (fst (handleMultiplayerGameOver data tm hs))) = gameName (fst hs)
   \<and> hostId (fst (fst (handleMultiplayerGameOver data tm hs))) = hostId (fst hs)
   \<and> state (fst (fst (handleMultiplayerGameOver data tm hs)))
       = (state (fst hs))\<lparr>gameState := None, currentPlayerId := None\<rparr>"
  by (cases hs) (simp add: handleMultiplayerGameOver_def Let_def)

lemma handled_step:
  assumes "operation \<noteq> ResetState"
  shows "handledReadyClients (fst hs) \<subseteq> handledReadyClients (fst (fst (step operation hs)))"
proof (cases operation)
  case (Ready sw hints e)
  then show ?thesis by (simp add: handled_mono_handleReady)
next
  case (SaveGameState data e tm)
  then show ?thesis by (simp add: handleSaveGameState_frame)
next
  case (MultiplayerGameOver data tm)
  then show ?thesis by (simp add: handleMultiplayerGameOver_frame)
next
  case ResetState
  with assms show ?thesis by simp
next
  case InitialLoad
  then show ?thesis by (cases hs) (simp add: initialLoad_def)
qed

lemma handled_run:
  "ResetState \<notin> set ops \<Longrightarrow> handledReadyClients (fst hs) \<subseteq> handledReadyClients (fst (run ops hs))"
proof (induction ops arbitrary: hs)
  case Nil
  then show ?case by simp
next
  case (Cons operation ops)
  then have "operation \<noteq> ResetState" and "ResetState \<notin> set ops" by auto
  from handled_step[OF this(1), of hs] Cons.IH[OF this(2), of "fst (step operation hs)"]
  show ?case by auto
qed

text \<open>
  C4. The host processes at most one ready handshake per client id. Once a ready message
  of a client id has been handled, a further ready message arriving with that client id,
  after any sequence of handshakes of other clients, saves and game-overs (no reset in
  between), produces no reply (it posts and schedules nothing) and leaves the host and
  the storage, so the players list and the assignment table, unchanged.
\<close>

theorem duplicate_ready_ignored:
  assumes "ResetState \<notin> set ops" and "clientId hints' = clientId hints"
  shows "handleReady sw' hints' e' (run ops (fst (handleReady sw hints e hs)))
           = (run ops (fst (handleReady sw hints e hs)), [])"
proof -
  obtain h s where hs': "run ops (fst (handleReady sw hints e hs)) = (h, s)"
    by (cases "run ops (fst (handleReady sw hints e hs))")
  from handled_handleReady[of hints sw e hs] handled_run[OF assms(1), of "fst (handleReady sw hints e hs)"]
  have "clientId hints \<in> handledReadyClients (fst (run ops (fst (handleReady sw hints e hs))))"
    by auto
  with hs' assms(2) have "clientId hints' \<in> handledReadyClients h" by simp
  from handleReady_snd_handled[OF this] hs' show ?thesis by simp
qed

theorem duplicate_ready_ignored_witness:
  "ResetState \<notin> set [SaveGameState (JObj [(''gameState'', JObj [(''turn'', JStr ''w'')])])
                          \<lparr>now = 5, random36 = ''0.abcdefghijk''\<rparr> 6,
                        MultiplayerGameOver JNull 7]
   \<and> snd (handleReady (Some (ClientWindow 1))
             \<lparr>clientId = ''client-a'', playerId = None, playerName = None\<rparr>
             \<lparr>now = 9, random36 = ''0.zz''\<rparr>
             (run [SaveGameState (JObj [(''gameState'', JObj [(''turn'', JStr ''w'')])])
                     \<lparr>now = 5, random36 = ''0.abcdefghijk''\<rparr> 6,
                   MultiplayerGameOver JNull 7]
                (fst (handleReady (Some (ClientWindow 1))
                        \<lparr>clientId = ''client-a'', playerId = None, playerName = None\<rparr>
                        \<lparr>now = 1, random36 = ''0.yy''\<rparr>
                        (newHost ''h1'' ''game'' True,
                         \<lparr>isAvailable = True, items = Map.empty\<rparr>))))) = []"
  using duplicate_ready_ignored
          [where ops = "[SaveGameState (JObj [(''gameState'', JObj [(''turn'', JStr ''w'')])])
                          \<lparr>now = 5, random36 = ''0.abcdefghijk''\<rparr> 6,
                        MultiplayerGameOver JNull 7]"
             and hints = "\<lparr>clientId = ''client-a'', playerId = None, playerName = None\<rparr>"
             and hints' = "\<lparr>clientId = ''client-a'', playerId = None, playerName = None\<rparr>"
             and sw' = "Some (ClientWindow 1)" and e' = "\<lparr>now = 9, random36 = ''0.zz''\<rparr>"
             and sw = "Some (ClientWindow 1)" and e = "\<lparr>now = 1, random36 = ''0.yy''\<rparr>"
             and hs = "(newHost ''h1'' ''game'' True, \<lparr>isAvailable = True, items = Map.empty\<rparr>)"]
  by simp

text \<open>
  C10. Handling a multiplayer game-over clears the game state and the current-player
  pointer, in memory and in the persisted state, and the player-assignment table (it
  also writes the broadcast key, and no other key); the player list, the set of
  handled ready client ids and the registered client windows are left unchanged,
  so a ready handshake re-sent from a client id handled before the game-over still
  produces no reply. \<open>resetState\<close> clears the set of handled client ids, and no other
  operation removes a client id from it.
\<close>

theorem game_over_keeps_dedup:
  "(case handleMultiplayerGameOver data dateNow (h, s) of
      ((h', s'), effects) \<Rightarrow>
        handledReadyClients h' = handledReadyClients h
        \<and> clientWindows h' = clientWindows h
        \<and> windowToClientId h' = windowToClientId h
        \<and> state h' = (state h)\<lparr>gameState := None, currentPlayerId := None\<rparr>
        \<and> (isAvailable s \<longrightarrow>
              getItem s' (getGameStateKey (Some (gameName h)))
                = Some (StateItem \<lparr>parsed_gameState = None,
                                    parsed_players = Some (players (state h)),
                                    parsed_currentPlayerId = None\<rparr>))
        \<and> readPlayerAssignments s' = []
        \<and> (\<forall>key. key \<noteq> getGameStateKey (Some (gameName h))
                 \<and> key \<noteq> PLAYER_ASSIGNMENTS_KEY \<and> key \<noteq> BROADCAST_STORAGE_KEY \<longrightarrow>
               getItem s' key = getItem s key)
        \<and> (clientId hints \<in> handledReadyClients h \<longrightarrow>
              handleReady sw hints e (h', s') = ((h', s'), [])))
   \<and> handledReadyClients (fst (fst (resetState (h, s)))) = {}
   \<and> (operation \<noteq> ResetState \<longrightarrow>
         handledReadyClients h \<subseteq> handledReadyClients (fst (fst (step operation (h, s)))))"
proof -
  obtain h' s' effects where go: "handleMultiplayerGameOver data dateNow (h, s) = ((h', s'), effects)"
    by (cases "handleMultiplayerGameOver data dateNow (h, s)") auto
  from handleMultiplayerGameOver_frame[of data dateNow "(h, s)"] go
  have frame: "handledReadyClients h' = handledReadyClients h" "clientWindows h' = clientWindows h"
    "windowToClientId h' = windowToClientId h"
    "state h' = (state h)\<lparr>gameState := None, currentPlayerId := None\<rparr>"
    by simp_all
  from go have s': "s' = clearPlayerAssignments
      (broadcastToOtherWindows ''multiplayer_game_over'' (JsonData data) dateNow h'
         (persistState (gameName h) ((state h)\<lparr>gameState := None, currentPlayerId := None\<rparr>) s))"
    by (auto simp: handleMultiplayerGameOver_def Let_def)
  have stored: "isAvailable s \<longrightarrow>
              getItem s' (getGameStateKey (Some (gameName h)))
                = Some (StateItem \<lparr>parsed_gameState = None,
                                    parsed_players = Some (players (state h)),
                                    parsed_currentPlayerId = None\<rparr>)"
    by (simp add: s')
  have cleared: "readPlayerAssignments s' = []"
    by (simp add: s' readPlayerAssignments_def)
  have others: "\<forall>key. key \<noteq> getGameStateKey (Some (gameName h))
                 \<and> key \<noteq> PLAYER_ASSIGNMENTS_KEY \<and> key \<noteq> BROADCAST_STORAGE_KEY \<longrightarrow>
               getItem s' key = getItem s key"
    by (simp add: s')
  have dup: "clientId hints \<in> handledReadyClients h \<longrightarrow>
              handleReady sw hints e (h', s') = ((h', s'), [])"
    using frame(1) by (simp add: handleReady_snd_handled)
  have reset: "handledReadyClients (fst (fst (resetState (h, s)))) = {}"
    by (simp add: resetState_def Let_def)
  have mono: "operation \<noteq> ResetState \<longrightarrow>
         handledReadyClients h \<subseteq> handledReadyClients (fst (fst (step operation (h, s))))"
    using handled_step[of operation "(h, s)"] by simp
  from go frame stored cleared others dup reset mono show ?thesis by simp
qed

theorem game_over_keeps_dedup_witness:
  "isAvailable \<lparr>isAvailable = True, items = Map.empty\<rparr>
   \<and> ''client-a'' \<in> handledReadyClients
         ((newHost ''h1'' ''game'' True)\<lparr>handledReadyClients := {''client-a''}\<rparr>)
   \<and> handledReadyClients (fst (fst (handleMultiplayerGameOver JNull 7
         ((newHost ''h1'' ''game'' True)\<lparr>handledReadyClients := {''client-a''}\<rparr>,
          \<lparr>isAvailable = True, items = Map.empty\<rparr>)))) = {''client-a''}
   \<and> snd (handleReady None \<lparr>clientId = ''client-a'', playerId = None, playerName = None\<rparr>
            \<lparr>now = 9, random36 = ''0.zz''\<rparr>
            (fst (handleMultiplayerGameOver JNull 7
               ((newHost ''h1'' ''game'' True)\<lparr>handledReadyClients := {''client-a''}\<rparr>,
                \<lparr>isAvailable = True, items = Map.empty\<rparr>)))) = []
   \<and> getItem (snd (fst (handleMultiplayerGameOver JNull 7
         ((newHost ''h1'' ''game'' True)\<lparr>handledReadyClients := {''client-a''}\<rparr>,
          \<lparr>isAvailable = True, items = Map.empty\<rparr>)))) ''remix_saved_states_game''
       = getItem \<lparr>isAvailable = True, items = Map.empty\<rparr> ''remix_saved_states_game''
   \<and> MultiplayerGameOver JNull 7 \<noteq> ResetState"
  using game_over_keeps_dedup
          [where data = JNull and dateNow = 7
             and h = "(newHost ''h1'' ''game'' True)\<lparr>handledReadyClients := {''client-a''}\<rparr>"
             and s = "\<lparr>isAvailable = True, items = Map.empty\<rparr>"
             and hints = "\<lparr>clientId = ''client-a'', playerId = None, playerName = None\<rparr>"
             and sw = None and e = "\<lparr>now = 9, random36 = ''0.zz''\<rparr>"
             and operation = "MultiplayerGameOver JNull 7"]
  by (simp add: case_prod_beta newHost_def getGameStateKey_def cleanName_def
        PLAYER_ASSIGNMENTS_KEY_def BROADCAST_STORAGE_KEY_def)

text \<open>
  C9. \<open>readPersistedState\<close> accepts a persisted players list only when it is an array of
  at least 2 entries; any shorter list, like a missing one, is replaced by the two
  default players, whose ids are "1" and "2". This includes the
  single-entry list that a processed handshake of a single-player host persists: the
  next read returns the default players.
\<close>

theorem readPersistedState_short_list:
  "(persistedPlayers (h, s) = Some ps \<longrightarrow>
      players (readPersistedState (gameName h) s)
        = (if 2 \<le> length ps then ps else DEFAULT_PLAYERS))
   \<and> (persistedPlayers (h, s) = None \<longrightarrow>
        players (readPersistedState (gameName h) s) = DEFAULT_PLAYERS)
   \<and> map player_id DEFAULT_PLAYERS = [''1'', ''2'']
   \<and> (\<not> isMultiplayer h \<and> isAvailable s \<and> clientId hints \<notin> handledReadyClients h \<longrightarrow>
        (\<exists>p. persistedPlayers (fst (handleReady sw hints e (h, s))) = Some [p])
        \<and> players (readPersistedState (gameName h) (snd (fst (handleReady sw hints e (h, s)))))
            = DEFAULT_PLAYERS)"
proof -
  have a: "persistedPlayers (h, s) = Some ps \<longrightarrow>
      players (readPersistedState (gameName h) s)
        = (if 2 \<le> length ps then ps else DEFAULT_PLAYERS)"
    by (auto simp: persistedPlayers_def readPersistedState_def split: option.splits item.splits)
  have a': "persistedPlayers (h, s) = None \<longrightarrow>
        players (readPersistedState (gameName h) s) = DEFAULT_PLAYERS"
    by (auto simp: persistedPlayers_def readPersistedState_def createDefaultState_def
          split: option.splits item.splits)
  have ids: "map player_id DEFAULT_PLAYERS = [''1'', ''2'']"
    by (simp add: DEFAULT_PLAYERS_def)
  have b: "(\<exists>p. persistedPlayers (fst (handleReady sw hints e (h, s))) = Some [p])
        \<and> players (readPersistedState (gameName h) (snd (fst (handleReady sw hints e (h, s)))))
            = DEFAULT_PLAYERS"
    if single: "\<not> isMultiplayer h" and avail: "isAvailable s"
      and fresh: "clientId hints \<notin> handledReadyClients h"
  proof -
    from length_readyPlayers_single[OF single, of hints s]
    obtain p where one: "snd (readyPlayers hints h s) = [p]"
      by (cases "snd (readyPlayers hints h s)") auto
    have "persistedPlayers (fst (handleReady sw hints e (h, s))) = Some [p]"
      using avail one
      by (simp add: persistedPlayers_def case_prod_beta handleReady_host(4)[OF fresh]
            handleReady_store[OF fresh])
    moreover have "players (readPersistedState (gameName h) (snd (fst (handleReady sw hints e (h, s)))))
            = DEFAULT_PLAYERS"
      using avail one by (simp add: handleReady_store[OF fresh] readPersistedState_def)
    ultimately show ?thesis by blast
  qed
  from a a' ids b show ?thesis by blast
qed

theorem readPersistedState_short_list_witness:
  "persistedPlayers (newHost ''h1'' ''game'' False, \<lparr>isAvailable = True, items = Map.empty\<rparr>)
     = None
   \<and> players (readPersistedState ''game'' \<lparr>isAvailable = True, items = Map.empty\<rparr>)
       = DEFAULT_PLAYERS
   \<and> persistedPlayers (newHost ''h1'' ''game'' False,
      \<lparr>isAvailable = True,
       items = [getGameStateKey (Some ''game'') \<mapsto>
                  StateItem \<lparr>parsed_gameState = None,
                             parsed_players = Some [\<lparr>player_id = ''1'', player_name = JStr ''Ann'',
                                                     player_imageUrl = None\<rparr>],
                             parsed_currentPlayerId = None\<rparr>]\<rparr>)
     = Some [\<lparr>player_id = ''1'', player_name = JStr ''Ann'', player_imageUrl = None\<rparr>]
   \<and> players (readPersistedState ''game''
        \<lparr>isAvailable = True,
         items = [getGameStateKey (Some ''game'') \<mapsto>
                  StateItem \<lparr>parsed_gameState = None,
                             parsed_players = Some [\<lparr>player_id = ''1'', player_name = JStr ''Ann'',
                                                     player_imageUrl = None\<rparr>],
                             parsed_currentPlayerId = None\<rparr>]\<rparr>) = DEFAULT_PLAYERS
   \<and> \<not> isMultiplayer (newHost ''h1'' ''game'' False)
   \<and> ''client-a'' \<notin> handledReadyClients (newHost ''h1'' ''game'' False)
   \<and> players (readPersistedState ''game''
        (snd (fst (handleReady None
           \<lparr>clientId = ''client-a'', playerId = None, playerName = None\<rparr>
           \<lparr>now = 9, random36 = ''0.zz''\<rparr>
           (newHost ''h1'' ''game'' False,
            \<lparr>isAvailable = True,
             items = [getGameStateKey (Some ''game'') \<mapsto>
                  StateItem \<lparr>parsed_gameState = None,
                             parsed_players = Some [\<lparr>player_id = ''1'', player_name = JStr ''Ann'',
                                                     player_imageUrl = None\<rparr>],
                             parsed_currentPlayerId = None\<rparr>]\<rparr>))))) = DEFAULT_PLAYERS"
  using readPersistedState_short_list
          [where h = "newHost ''h1'' ''game'' False"
             and s = "\<lparr>isAvailable = True, items = Map.empty\<rparr>"
             and hints = "\<lparr>clientId = ''client-a'', playerId = None, playerName = None\<rparr>"
             and sw = None and e = "\<lparr>now = 9, random36 = ''0.zz''\<rparr>"]
        readPersistedState_short_list
          [where h = "newHost ''h1'' ''game'' False"
             and s = "\<lparr>isAvailable = True,
               items = [getGameStateKey (Some ''game'') \<mapsto>
                  StateItem \<lparr>parsed_gameState = None,
                             parsed_players = Some [\<lparr>player_id = ''1'', player_name = JStr ''Ann'',
                                                     player_imageUrl = None\<rparr>],
                             parsed_currentPlayerId = None\<rparr>]\<rparr>"
             and ps = "[\<lparr>player_id = ''1'', player_name = JStr ''Ann'', player_imageUrl = None\<rparr>]"
             and hints = "\<lparr>clientId = ''client-a'', playerId = None, playerName = None\<rparr>"
             and sw = None and e = "\<lparr>now = 9, random36 = ''0.zz''\<rparr>"]
  by (simp add: persistedPlayers_def getItem_def newHost_def)

subsection \<open>Envelope ids\<close>

lemma of_char_digitChar: "d < 10 \<Longrightarrow> of_char (digitChar d) = (48 + d :: nat)"
  by (simp add: digitChar_def)

lemma digitChar_inj:
  assumes "d < 10" and "d' < 10" and "digitChar d = digitChar d'"
  shows "d = d'"
proof -
  have "48 + d = (of_char (digitChar d) :: nat)"
    using assms(1) by (simp add: of_char_digitChar)
  also have "\<dots> = of_char (digitChar d')"
    by (simp only: assms(3))
  also have "\<dots> = 48 + d'"
    using assms(2) by (simp add: of_char_digitChar)
  finally show ?thesis by simp
qed

lemma digitChar_not_dash:
  assumes "d < 10"
  shows "digitChar d \<noteq> CHR ''-''"
proof
  assume "digitChar d = CHR ''-''"
  then have "(of_char (digitChar d) :: nat) = of_char CHR ''-''"
    by (simp only:)
  with assms show False by (simp add: of_char_digitChar)
qed

lemma decimal_nonempty: "decimal n \<noteq> []"
  by (subst decimal.simps) simp

lemma dash_notin_decimal: "CHR ''-'' \<notin> set (decimal n)"
proof (induction n rule: decimal.induct)
  case (1 n)
  show ?case
  proof (cases "n < 10")
    case True
    then show ?thesis
      using digitChar_not_dash[of n] by (subst decimal.simps) auto
  next
    case False
    with 1 show ?thesis
      using digitChar_not_dash[of "n mod 10"] by (subst decimal.simps) auto
  qed
qed

lemma decimal_inj: "decimal m = decimal n \<Longrightarrow> m = n"
proof (induction m arbitrary: n rule: decimal.induct)
  case (1 m)
  show ?case
  proof (cases "m < 10")
    case small: True
    show ?thesis
    proof (cases "n < 10")
      case True
      with small 1(2) show ?thesis
        by (simp add: decimal.simps[of m] decimal.simps[of n] digitChar_inj)
    next
      case False
      with small 1(2) decimal_nonempty[of "n div 10"] show ?thesis
        by (simp add: decimal.simps[of m] decimal.simps[of n])
    qed
  next
    case big: False
    show ?thesis
    proof (cases "n < 10")
      case True
      with big 1(2) decimal_nonempty[of "m div 10"] show ?thesis
        by (simp add: decimal.simps[of m] decimal.simps[of n])
    next
      case False
      with big 1(2) have eq: "decimal (m div 10) = decimal (n div 10)"
        and d: "digitChar (m mod 10) = digitChar (n mod 10)"
        by (simp_all add: decimal.simps[of m] decimal.simps[of n])
      from 1(1)[OF big eq] have "m div 10 = n div 10" .
      moreover from d have "m mod 10 = n mod 10" by (simp add: digitChar_inj)
      ultimately show ?thesis by (metis div_mult_mod_eq)
    qed
  qed
qed

lemma split_at_dash:
  assumes "CHR ''-'' \<notin> set xs" and "CHR ''-'' \<notin> set xs'"
    and "xs @ CHR ''-'' # ys = xs' @ CHR ''-'' # ys'"
  shows "xs = xs' \<and> ys = ys'"
proof -
  have before: "takeWhile (\<lambda>c. c \<noteq> CHR ''-'') (zs @ CHR ''-'' # ws) = zs"
    if "CHR ''-'' \<notin> set zs" for zs ws
    using that by (induction zs) auto
  from before[OF assms(1), of ys] before[OF assms(2), of ys'] assms(3)
  have "xs = xs'" by simp
  with assms(3) show ?thesis by simp
qed

lemma generateEnvelopeId_eq:
  "generateEnvelopeId e1 = generateEnvelopeId e2 \<longleftrightarrow>
     now e1 = now e2 \<and> take 8 (drop 2 (random36 e1)) = take 8 (drop 2 (random36 e2))"
proof
  assume "generateEnvelopeId e1 = generateEnvelopeId e2"
  then have "decimal (now e1) @ CHR ''-'' # take 8 (drop 2 (random36 e1))
           = decimal (now e2) @ CHR ''-'' # take 8 (drop 2 (random36 e2))"
    by (simp add: generateEnvelopeId_def)
  from split_at_dash[OF dash_notin_decimal dash_notin_decimal this]
  show "now e1 = now e2 \<and> take 8 (drop 2 (random36 e1)) = take 8 (drop 2 (random36 e2))"
    by (auto dest: decimal_inj)
next
  assume "now e1 = now e2 \<and> take 8 (drop 2 (random36 e1)) = take 8 (drop 2 (random36 e2))"
  then show "generateEnvelopeId e1 = generateEnvelopeId e2"
    by (simp add: generateEnvelopeId_def)
qed

lemma digitChar_values:
  "digitChar 0 = CHR ''0''" "digitChar 1 = CHR ''1''" "digitChar 2 = CHR ''2''"
  "digitChar 3 = CHR ''3''" "digitChar 4 = CHR ''4''" "digitChar 5 = CHR ''5''"
  "digitChar 6 = CHR ''6''" "digitChar 7 = CHR ''7''" "digitChar 8 = CHR ''8''"
  "digitChar 9 = CHR ''9''" "digitChar (Suc 0) = CHR ''1''"
  by (simp_all add: digitChar_def char_of_def bit_Suc_0_iff)

lemma saveRoster_gameState: "saveRoster typed st = Inr st2 \<Longrightarrow> gameState st2 = gameState st"
  by (auto simp: saveRoster_def split: json.splits if_splits sum.splits)

lemma saveCurrentPlayer_fields [simp]:
  "gameState (saveCurrentPlayer typed st) = gameState st"
  "players (saveCurrentPlayer typed st) = players st"
  by (simp_all add: saveCurrentPlayer_def split: json.splits)

lemma sendGameEvent_broadcast:
  "sendGameEvent type data None h \<noteq> []
   \<and> (\<forall>eff \<in> set (sendGameEvent type data None h). postedData eff = [data])"
  by (auto simp: sendGameEvent_def truthyString_def)

lemma handleSaveGameState_completed:
  assumes "truthy data" and "typeofObject data"
    and "Rejected TypeError \<notin> set (snd (handleSaveGameState data e dateNow (h, s)))"
  shows "\<exists>st. gameState st = saveEnvelope data e
     \<and> handleSaveGameState data e dateNow (h, s)
         = ((h\<lparr>state := st\<rparr>,
             broadcastToOtherWindows ''game_state_updated'' (EnvelopeData (saveEnvelope data e))
               dateNow (h\<lparr>state := st\<rparr>) (persistState (gameName h) st s)),
            sendGameEvent ''game_state_updated'' (EnvelopeData (saveEnvelope data e)) None
              (h\<lparr>state := st\<rparr>)
            @ [publishDevEvent ''game_state_updated'' (EnvelopeData (saveEnvelope data e))
                 (h\<lparr>state := st\<rparr>)])"
proof (cases "saveRoster (getProp data ''gameState'') ((state h)\<lparr>gameState := saveEnvelope data e\<rparr>)")
  case (Inl err)
  with assms show ?thesis
    by (cases err) (simp add: handleSaveGameState_def Let_def)
next
  case (Inr st2)
  from saveRoster_gameState[OF Inr] have "gameState st2 = saveEnvelope data e" by simp
  with assms Inr show ?thesis
    by (intro exI[of _ "saveCurrentPlayer (getProp data ''gameState'') st2"])
       (simp add: handleSaveGameState_def Let_def)
qed

text \<open>
  C7, as amended. Every save-state operation of a truthy payload that the host persists
  and broadcasts wraps the payload in an envelope whose id is generated at that save from
  the clock and a random draw: the same envelope is kept in memory, persisted, written to
  the broadcast key and carried by every event posted. The id does not depend on the
  payload, and two ids are equal exactly when the clock reading and the eight characters
  taken from the random draw are both equal; so two consecutive saves, also of
  byte-identical payloads, yield different ids whenever the clock reading or the random
  suffix differs.
\<close>

theorem save_envelope_id:
  "(truthy data \<and> typeofObject data \<and> truthy (getProp data ''gameState'')
      \<and> Rejected TypeError \<notin> set (snd (handleSaveGameState data e dateNow (h, s))) \<longrightarrow>
      (\<exists>envelope.
          envelope_id envelope = generateEnvelopeId e
        \<and> envelope_gameState envelope = getProp data ''gameState''
        \<and> gameState (state (fst (fst (handleSaveGameState data e dateNow (h, s))))) = Some envelope
        \<and> (isAvailable s \<longrightarrow>
              persistedGameState (fst (handleSaveGameState data e dateNow (h, s))) = Some envelope
            \<and> lastBroadcast (snd (fst (handleSaveGameState data e dateNow (h, s))))
                = Some (''game_state_updated'', EnvelopeData (Some envelope)))
        \<and> snd (handleSaveGameState data e dateNow (h, s)) \<noteq> []
        \<and> (\<forall>eff \<in> set (snd (handleSaveGameState data e dateNow (h, s))).
              postedData eff = [EnvelopeData (Some envelope)])))
   \<and> (generateEnvelopeId e1 = generateEnvelopeId e2 \<longleftrightarrow>
        now e1 = now e2 \<and> take 8 (drop 2 (random36 e1)) = take 8 (drop 2 (random36 e2)))"
proof -
  have saved: "\<exists>envelope.
          envelope_id envelope = generateEnvelopeId e
        \<and> envelope_gameState envelope = getProp data ''gameState''
        \<and> gameState (state (fst (fst (handleSaveGameState data e dateNow (h, s))))) = Some envelope
        \<and> (isAvailable s \<longrightarrow>
              persistedGameState (fst (handleSaveGameState data e dateNow (h, s))) = Some envelope
            \<and> lastBroadcast (snd (fst (handleSaveGameState data e dateNow (h, s))))
                = Some (''game_state_updated'', EnvelopeData (Some envelope)))
        \<and> snd (handleSaveGameState data e dateNow (h, s)) \<noteq> []
        \<and> (\<forall>eff \<in> set (snd (handleSaveGameState data e dateNow (h, s))).
              postedData eff = [EnvelopeData (Some envelope)])"
    if t: "truthy data" "typeofObject data" and g: "truthy (getProp data ''gameState'')"
      and completes: "Rejected TypeError \<notin> set (snd (handleSaveGameState data e dateNow (h, s)))"
  proof -
    from handleSaveGameState_completed[OF t completes] obtain st
      where st: "gameState st = saveEnvelope data e"
        and run: "handleSaveGameState data e dateNow (h, s)
         = ((h\<lparr>state := st\<rparr>,
             broadcastToOtherWindows ''game_state_updated'' (EnvelopeData (saveEnvelope data e))
               dateNow (h\<lparr>state := st\<rparr>) (persistState (gameName h) st s)),
            sendGameEvent ''game_state_updated'' (EnvelopeData (saveEnvelope data e)) None
              (h\<lparr>state := st\<rparr>)
            @ [publishDevEvent ''game_state_updated'' (EnvelopeData (saveEnvelope data e))
                 (h\<lparr>state := st\<rparr>)])"
      by blast
    from g obtain envelope where env: "saveEnvelope data e = Some envelope"
      and id: "envelope_id envelope = generateEnvelopeId e"
      and payload: "envelope_gameState envelope = getProp data ''gameState''"
      by (simp add: saveEnvelope_def)
    show ?thesis
      using st run env id payload
        sendGameEvent_broadcast[of "''game_state_updated''" "EnvelopeData (Some envelope)" "h\<lparr>state := st\<rparr>"]
      by (intro exI[of _ envelope])
         (auto simp: persistedGameState_def lastBroadcast_def publishDevEvent_def)
  qed
  from saved generateEnvelopeId_eq[of e1 e2] show ?thesis by blast
qed

theorem save_envelope_id_witness:
  "truthy (JObj [(''gameState'', JObj [(''score'', JNum 3)])])
   \<and> Rejected TypeError \<notin> set (snd (handleSaveGameState
         (JObj [(''gameState'', JObj [(''score'', JNum 3)])])
         \<lparr>now = 1700000000000, random36 = ''0.k3j9x2mq7pz''\<rparr> 1700000000001
         (newHost ''h1'' ''game'' True, \<lparr>isAvailable = True, items = Map.empty\<rparr>)))
   \<and> map_option envelope_id (persistedGameState (fst (handleSaveGameState
         (JObj [(''gameState'', JObj [(''score'', JNum 3)])])
         \<lparr>now = 1700000000000, random36 = ''0.k3j9x2mq7pz''\<rparr> 1700000000001
         (newHost ''h1'' ''game'' True, \<lparr>isAvailable = True, items = Map.empty\<rparr>))))
       = Some (generateEnvelopeId \<lparr>now = 1700000000000, random36 = ''0.k3j9x2mq7pz''\<rparr>)
   \<and> generateEnvelopeId \<lparr>now = 1700000000000, random36 = ''0.k3j9x2mq7pz''\<rparr>
       \<noteq> generateEnvelopeId \<lparr>now = 1700000000001, random36 = ''0.k3j9x2mq7pz''\<rparr>"
  using save_envelope_id
          [where data = "JObj [(''gameState'', JObj [(''score'', JNum 3)])]"
             and e = "\<lparr>now = 1700000000000, random36 = ''0.k3j9x2mq7pz''\<rparr>"
             and dateNow = 1700000000001
             and h = "newHost ''h1'' ''game'' True"
             and s = "\<lparr>isAvailable = True, items = Map.empty\<rparr>"
             and ?e1.0 = "\<lparr>now = 1700000000000, random36 = ''0.k3j9x2mq7pz''\<rparr>"
             and ?e2.0 = "\<lparr>now = 1700000000001, random36 = ''0.k3j9x2mq7pz''\<rparr>"]
  by (auto simp: getProp_def handleSaveGameState_def Let_def saveRoster_def saveCurrentPlayer_def
        sendGameEvent_def publishDevEvent_def truthyString_def newHost_def)

text \<open>
  The claim as first stated fails twice: two consecutive saves that read the same clock
  value and draw the same random text yield the same id, and a save whose payload is
  falsy (here \<^verbatim>\<open>null\<close>) persists and broadcasts no envelope at all.
\<close>

theorem save_envelope_id_counterexample:
  "map_option envelope_id (persistedGameState (fst (handleSaveGameState
        (JObj [(''gameState'', JObj [(''score'', JNum 3)])])
        \<lparr>now = 1700000000000, random36 = ''0.k3j9x2mq7pz''\<rparr> 1700000000000
        (newHost ''h1'' ''game'' True, \<lparr>isAvailable = True, items = Map.empty\<rparr>))))
     = Some ''1700000000000-k3j9x2mq''
   \<and> map_option envelope_id (persistedGameState (fst (handleSaveGameState
        (JObj [(''gameState'', JObj [(''score'', JNum 3)])])
        \<lparr>now = 1700000000000, random36 = ''0.k3j9x2mq7pz''\<rparr> 1700000000000
        (fst (handleSaveGameState
           (JObj [(''gameState'', JObj [(''score'', JNum 3)])])
           \<lparr>now = 1700000000000, random36 = ''0.k3j9x2mq7pz''\<rparr> 1700000000000
           (newHost ''h1'' ''game'' True, \<lparr>isAvailable = True, items = Map.empty\<rparr>))))))
     = Some ''1700000000000-k3j9x2mq''
   \<and> persistedGameState (fst (handleSaveGameState
        (JObj [(''gameState'', JNull)])
        \<lparr>now = 1700000000000, random36 = ''0.k3j9x2mq7pz''\<rparr> 1700000000000
        (newHost ''h1'' ''game'' True, \<lparr>isAvailable = True, items = Map.empty\<rparr>))) = None
   \<and> lastBroadcast (snd (fst (handleSaveGameState
        (JObj [(''gameState'', JNull)])
        \<lparr>now = 1700000000000, random36 = ''0.k3j9x2mq7pz''\<rparr> 1700000000000
        (newHost ''h1'' ''game'' True, \<lparr>isAvailable = True, items = Map.empty\<rparr>))))
     = Some (''game_state_updated'', EnvelopeData None)"
  by (simp add: handleSaveGameState_def Let_def saveEnvelope_def saveRoster_def
        saveCurrentPlayer_def getProp_def newHost_def persistedGameState_def lastBroadcast_def
        generateEnvelopeId_def decimal.simps digitChar_values createDefaultState_def)

subsection \<open>Player resolution\<close>

lemma getItem_unavailable: "\<not> isAvailable s \<Longrightarrow> getItem s k = None"
  by (simp add: getItem_def)


lemma readPersistedState_other [simp]:
  "readPersistedState n (writePlayerAssignments a s) = readPersistedState n s"
  "readPersistedState n (clearPlayerAssignments s) = readPersistedState n s"
  "readPersistedState n (broadcastToOtherWindows t d tm h s) = readPersistedState n s"
  by (simp_all add: readPersistedState_def)

lemma readPlayerAssignments_ops [simp]:
  "readPlayerAssignments (persistState n st s) = readPlayerAssignments s"
  "readPlayerAssignments (broadcastToOtherWindows t d tm h s) = readPlayerAssignments s"
  "readPlayerAssignments (clearPlayerAssignments s) = []"
  "readPlayerAssignments (writePlayerAssignments a s) = (if isAvailable s then a else [])"
  by (simp_all add: readPlayerAssignments_def getItem_unavailable)



















subsection \<open>The size of the player list\<close>



















end
